theory Spec2Isabelle
  imports Complex_Main
begin

section \<open>Values, errors and frames\<close>

text \<open>
  The two scripts are glue around pandas. A finite float64 value is represented by the
  rational number it is, an int64 cell by an integer; timestamps are the integers of the
  upstream schema (epoch milliseconds, stored by pandas as int64). Every exception the
  scripts can meet is a value of \<open>error\<close>.
\<close>

datatype error =
    TypeError
  | ValueError
  | IndexError
  | KeyError string
  | OutOfBoundsDatetime
  | FileNotFoundError
  | ParserError
  | ConnectionError
  | JSONDecodeError
  | Exception string

text \<open>
  A JSON scalar in the value slot of a \<open>[timestamp, value]\<close> pair, and a cell of a column:
  a number, a string, or one of the float64 values that are not finite numbers (the JSON
  parser of Python reads \<open>-0.0\<close>, \<open>Infinity\<close>, \<open>-Infinity\<close> and \<open>NaN\<close>). In a response
  \<open>Num r\<close> is the number literal \<open>r\<close>; in a float64 column \<open>Num x\<close> is the float64 \<open>x\<close>, with
  \<open>Num 0\<close> the positive zero.
\<close>

datatype jval = is_Num: Num rat | is_Str: Str string | NegZero | PosInf | NegInf | NaN

text \<open>
  The market-chart payload: \<open>prices\<close>, \<open>market_caps\<close> and \<open>total_volumes\<close>, each a list
  of pairs. Market capitalisations and volumes are finite JSON numbers; the value of a price
  pair is any scalar. Numbers are taken to be written as the API writes them, with a
  fraction: an array of integer literals only makes an int64 column, whose cells are exact
  where float64 is not (beyond \<open>2 ^ 53\<close>).
\<close>

record raw_data =
  prices :: "(int \<times> jval) list"
  market_caps :: "(int \<times> rat) list"
  total_volumes :: "(int \<times> rat) list"

text \<open>
  A row of the processed frame, columns \<open>date, datetime, price, market_cap, volume\<close>.
  \<open>datetime\<close> is the instant in milliseconds since the epoch, \<open>date\<close> its calendar day
  (days since 1970-01-01).
\<close>

record 'p row =
  date :: int
  datetime :: int
  price :: 'p
  market_cap :: int
  volume :: int

text \<open>An exception (\<open>Inl\<close>) ends a sequence of evaluations.\<close>

definition bindS :: "error + 'a \<Rightarrow> ('a \<Rightarrow> error + 'b) \<Rightarrow> error + 'b" where
  "bindS r f = (case r of Inl e \<Rightarrow> Inl e | Inr a \<Rightarrow> f a)"

section \<open>Collector: process_historical_data\<close>

text \<open>
  \<open>DataFrame.merge(other, on='timestamp')\<close>: an inner join that keeps the order of the
  left keys; a key that occurs several times on either side yields every combination.
  (When a key is repeated on the left at positions that are not adjacent, older pandas
  releases group those rows together; the rows themselves are the same.)
\<close>

fun merge_on_timestamp :: "(int \<times> 'a) list \<Rightarrow> (int \<times> 'b) list \<Rightarrow> (int \<times> 'a \<times> 'b) list" where
  "merge_on_timestamp [] right = []"
| "merge_on_timestamp ((t, a) # left) right =
     map (\<lambda>(t', b). (t, a, b)) (filter (\<lambda>(t', b). t' = t) right) @ merge_on_timestamp left right"

text \<open>
  \<open>pd.to_datetime(..., unit='ms')\<close> yields datetime64[ns]: the instant in nanoseconds
  must fit a signed 64-bit integer (the least one is reserved), or the call raises.
\<close>

definition datetime_in_bounds :: "int \<Rightarrow> bool" where
  "datetime_in_bounds t \<longleftrightarrow> - (2 ^ 63 - 1) \<le> t * 1000000 \<and> t * 1000000 \<le> 2 ^ 63 - 1"

definition to_datetime_ms :: "int list \<Rightarrow> error + int list" where
  "to_datetime_ms ts = (if list_all datetime_in_bounds ts then Inr ts else Inl OutOfBoundsDatetime)"

definition dt_date :: "int \<Rightarrow> int" where
  "dt_date dt = dt div 86400000"

text \<open>
  Rounding to an integer, ties to the even neighbour: \<open>rint\<close> of numpy and the rounding
  of IEEE 754 arithmetic.
\<close>

definition round_half_even :: "rat \<Rightarrow> int" where
  "round_half_even x =
     (let f = \<lfloor>x\<rfloor>; d = x - of_int f
      in if d < 1 / 2 then f else if 1 / 2 < d then f + 1 else if even f then f else f + 1)"

text \<open>
  float64. A finite float64 is an integer multiple of a power of two, the multiple below
  \<open>2 ^ 53\<close> in magnitude and the exponent at least \<open>-1074\<close>. \<open>ilog2 x\<close> is the binary
  exponent of \<open>x\<close>, found by bisection between \<open>-1075\<close> and \<open>3020\<close>; \<open>quantum x\<close> is the
  spacing of the float64 values around \<open>x\<close>, and \<open>round_f64 x\<close> the multiple of it nearest
  to \<open>x\<close>, ties to even: the result of an arithmetic operation whose exact value is \<open>x\<close>,
  as long as it does not overflow.
\<close>

definition pow2 :: "int \<Rightarrow> rat" where
  "pow2 k = (if 0 \<le> k then 2 ^ nat k else 1 / 2 ^ nat (- k))"

definition bisect :: "rat \<Rightarrow> int \<Rightarrow> int \<Rightarrow> int" where
  "bisect x e s = (if pow2 (e + s) \<le> \<bar>x\<bar> then e + s else e)"

definition ilog2 :: "rat \<Rightarrow> int" where
  "ilog2 x = foldl (bisect x) (- 1075) [2048, 1024, 512, 256, 128, 64, 32, 16, 8, 4, 2, 1]"

definition quantum :: "rat \<Rightarrow> rat" where
  "quantum x = pow2 (max (ilog2 x) (- 1022) - 52)"

definition round_f64 :: "rat \<Rightarrow> rat" where
  "round_f64 x = of_int (round_half_even (x / quantum x)) * quantum x"

definition max_f64 :: rat where
  "max_f64 = (2 ^ 53 - 1) * 2 ^ 971"

text \<open>
  The float64 result of an operation with exact value \<open>x\<close>: an infinity when the rounded
  value is beyond the largest float64, the negative zero when a negative value rounds to
  zero. It is also what the JSON parser makes of the number literal \<open>x\<close>.
\<close>

definition fl :: "rat \<Rightarrow> jval" where
  "fl x =
     (let y = round_f64 x
      in if max_f64 < y then PosInf else if y < - max_f64 then NegInf
         else if y = 0 \<and> x < 0 then NegZero else Num y)"

text \<open>
  The finite float64 a rational stands for where the type of a column admits finite numbers
  only: the nearest one.
\<close>

definition f64_of :: "rat \<Rightarrow> rat" where
  "f64_of x = max (- max_f64) (min max_f64 (round_f64 x))"

definition finite_cell :: "rat \<Rightarrow> jval" where
  "finite_cell x = Num (f64_of x)"

fun is_finite :: "jval \<Rightarrow> bool" where
  "is_finite (Num x) = True"
| "is_finite NegZero = True"
| "is_finite c = False"

fun f64_value :: "jval \<Rightarrow> rat" where
  "f64_value (Num x) = x"
| "f64_value c = 0"

text \<open>
  The cell of a float64 column made from a scalar of the response, and the product of a
  float64 cell with a positive constant (a division by \<open>100.0\<close> is the product with
  \<open>1 / 100\<close>, exactly, before the rounding). Zeros, infinities and NaN stay as they are.
\<close>

fun float_cell :: "jval \<Rightarrow> jval" where
  "float_cell (Num r) = fl r"
| "float_cell c = c"

fun f64_times :: "rat \<Rightarrow> jval \<Rightarrow> jval" where
  "f64_times c (Num x) = fl (x * c)"
| "f64_times c v = v"

fun rint :: "jval \<Rightarrow> jval" where
  "rint (Num x) = (let k = round_half_even x in if k = 0 \<and> x < 0 then NegZero else Num (of_int k))"
| "rint v = v"

text \<open>
  \<open>round(d)\<close> of numpy on a float64 cell: \<open>rint\<close> alone when \<open>d = 0\<close>, otherwise the cell is
  multiplied by \<open>10 ^ d\<close>, rounded to an integer and divided by \<open>10 ^ d\<close>, each step in
  float64.
\<close>

definition round_decimals :: "nat \<Rightarrow> jval \<Rightarrow> jval" where
  "round_decimals d c =
     (if d = 0 then rint c else f64_times (1 / 10 ^ d) (rint (f64_times (10 ^ d) c)))"

text \<open>
  \<open>astype('int64')\<close> on a float64 column raises when a cell is not finite; a finite cell
  loses its fraction, and a value beyond the range of int64 becomes the least int64 (the
  conversion instruction of x86-64).
\<close>

definition int64_of :: "rat \<Rightarrow> int" where
  "int64_of x =
     (let k = (if 0 \<le> x then \<lfloor>x\<rfloor> else \<lceil>x\<rceil>)
      in if - (2 ^ 63) \<le> k \<and> k < 2 ^ 63 then k else - (2 ^ 63))"

definition astype_int64 :: "jval list \<Rightarrow> error + int list" where
  "astype_int64 cells =
     (if list_all is_finite cells then Inr (map (\<lambda>c. int64_of (f64_value c)) cells)
      else Inl ValueError)"

text \<open>
  A column built by \<open>pd.DataFrame(pairs, columns=[...])\<close> has dtype object when there are no
  pairs or when some value is a string, and dtype float64 otherwise. The dtype stays with
  the column through the merges.
\<close>

definition is_object :: "jval list \<Rightarrow> bool" where
  "is_object cells \<longleftrightarrow> cells = [] \<or> list_ex is_Str cells"

definition frame :: "('a \<Rightarrow> jval) \<Rightarrow> (int \<times> 'a) list \<Rightarrow> (int \<times> jval) list" where
  "frame cell pairs = map (\<lambda>(t, c). (t, cell c)) pairs"

text \<open>
  \<open>Series.round\<close> on a numeric column rounds every cell. On a column of dtype object,
  pandas releases differ: the rounding is tried cell by cell and fails with TypeError on
  the first cell (nothing happens when there is no cell), or the column is returned
  unchanged, or the dtype is rejected with TypeError whatever the cells. The behaviour
  is a parameter of the model.
\<close>

datatype object_round = RaiseOnCell | LeaveUnchanged | RejectDtype

definition series_round :: "object_round \<Rightarrow> bool \<Rightarrow> ('a \<Rightarrow> 'a) \<Rightarrow> 'a list \<Rightarrow> error + 'a list" where
  "series_round pol obj rnd cells =
     (if \<not> obj then Inr (map rnd cells)
      else case pol of
          RaiseOnCell \<Rightarrow> (if cells = [] then Inr cells else Inl TypeError)
        | LeaveUnchanged \<Rightarrow> Inr cells
        | RejectDtype \<Rightarrow> Inl TypeError)"

definition process_historical_data :: "object_round \<Rightarrow> raw_data \<Rightarrow> error + jval row list" where
  "process_historical_data pol raw =
     (let df_prices = frame float_cell (prices raw);
          df_market_caps = frame finite_cell (market_caps raw);
          df_volumes = frame finite_cell (total_volumes raw);
          df = merge_on_timestamp (merge_on_timestamp df_prices df_market_caps) df_volumes
      in case to_datetime_ms (map fst df) of
           Inl e \<Rightarrow> Inl e
         | Inr dts \<Rightarrow>
       (case series_round pol (is_object (map snd (prices raw))) (round_decimals 2)
               (map (\<lambda>(t, (p, m), v). p) df) of
           Inl e \<Rightarrow> Inl e
         | Inr ps \<Rightarrow>
       (case bindS (series_round pol (df_market_caps = []) (round_decimals 0)
                     (map (\<lambda>(t, (p, m), v). m) df)) astype_int64 of
           Inl e \<Rightarrow> Inl e
         | Inr ms \<Rightarrow>
       (case bindS (series_round pol (df_volumes = []) (round_decimals 0)
                     (map (\<lambda>(t, (p, m), v). v) df)) astype_int64 of
           Inl e \<Rightarrow> Inl e
         | Inr vs \<Rightarrow>
           Inr (map (\<lambda>(dt, p, m, v).
                  \<lparr>date = dt_date dt, datetime = dt, price = p, market_cap = m, volume = v\<rparr>)
                 (zip dts (zip ps (zip ms vs))))))))"

section \<open>Text rendering of numbers\<close>

text \<open>Decimal digits of a natural number, as \<open>str\<close> and the format specifications print them.\<close>

fun string_of_nat :: "nat \<Rightarrow> string" where
  "string_of_nat n =
     (if n < 10 then [''0123456789'' ! n]
      else string_of_nat (n div 10) @ [''0123456789'' ! (n mod 10)])"

declare string_of_nat.simps [simp del]

text \<open>The thousands separator of the format option \<open>,\<close>: a comma before every group of three digits.\<close>

function group3 :: "string \<Rightarrow> string" where
  "group3 s =
     (if length s \<le> 3 then s
      else group3 (take (length s - 3) s) @ '','' @ drop (length s - 3) s)"
  by pat_completeness auto
termination
  by (relation "measure length") auto

declare group3.simps [simp del]

text \<open>
  \<open>format(x, ',.2f')\<close>: the sign, the integral part in groups of three digits, and two
  decimals; the value is rounded to the nearest cent, ties to even.
\<close>

definition format_2f :: "rat \<Rightarrow> string" where
  "format_2f x =
     (let cents = nat (round_half_even (\<bar>x\<bar> * 100))
      in (if x < 0 then ''-'' else [])
         @ group3 (string_of_nat (cents div 100))
         @ ''.''
         @ [''0123456789'' ! (cents mod 100 div 10), ''0123456789'' ! (cents mod 10)])"

text \<open>The format specification \<open>:,.2f\<close> applied to a cell: a string has no such format.\<close>

fun format_cell_2f :: "jval \<Rightarrow> error + string" where
  "format_cell_2f (Num x) = Inr (format_2f x)"
| "format_cell_2f (Str s) = Inl ValueError"
| "format_cell_2f NegZero = Inr ''-0.00''"
| "format_cell_2f PosInf = Inr ''inf''"
| "format_cell_2f NegInf = Inr ''-inf''"
| "format_cell_2f NaN = Inr ''nan''"

section \<open>Files, exceptions and state\<close>

text \<open>
  A file system is a map from paths to file contents and a set of directories. File
  operations are taken to succeed (permissions, disk space and paths that name a directory
  where a file is expected are outside the model). What the scripts print is not part of
  the state; where the text to print is built by an expression that can raise, the
  expression is still evaluated.
\<close>

record 'c filesystem =
  files :: "string \<rightharpoonup> 'c"
  dirs :: "string set"

definition mkdir :: "string \<Rightarrow> ('c, 'z) filesystem_scheme \<Rightarrow> ('c, 'z) filesystem_scheme" where
  "mkdir path w = w\<lparr>dirs := insert path (dirs w)\<rparr>"

definition write_file :: "string \<Rightarrow> 'c \<Rightarrow> ('c, 'z) filesystem_scheme \<Rightarrow> ('c, 'z) filesystem_scheme" where
  "write_file path c w = w\<lparr>files := (files w)(path \<mapsto> c)\<rparr>"

text \<open>
  A statement of the scripts is a function from the state to a result, an exception
  (\<open>Inl\<close>) or a value, and the state it leaves; \<open>bindE\<close> runs the next statement unless an
  exception was raised.
\<close>

type_synonym ('a, 's) prog = "'s \<Rightarrow> (error + 'a) \<times> 's"

definition returnE :: "'a \<Rightarrow> ('a, 's) prog" where
  "returnE a = (\<lambda>s. (Inr a, s))"

definition raiseE :: "error \<Rightarrow> ('a, 's) prog" where
  "raiseE e = (\<lambda>s. (Inl e, s))"

definition liftE :: "error + 'a \<Rightarrow> ('a, 's) prog" where
  "liftE r = (\<lambda>s. (r, s))"

definition bindE :: "('a, 's) prog \<Rightarrow> ('a \<Rightarrow> ('b, 's) prog) \<Rightarrow> ('b, 's) prog" where
  "bindE m f = (\<lambda>s. case m s of (Inl e, s') \<Rightarrow> (Inl e, s') | (Inr a, s') \<Rightarrow> f a s')"

text \<open>
  \<open>d[k]\<close> on a dictionary, which is represented by the list of its items (each key
  once).
\<close>

definition getitem :: "(string \<times> 'v) list \<Rightarrow> string \<Rightarrow> error + 'v" where
  "getitem d k = (case map_of d k of None \<Rightarrow> Inl (KeyError k) | Some v \<Rightarrow> Inr v)"

text \<open>\<open>df.iloc[i]\<close>: the row at position \<open>i\<close>, counted from the end when \<open>i\<close> is negative.\<close>

definition iloc :: "'a list \<Rightarrow> int \<Rightarrow> error + 'a" where
  "iloc df i =
     (if 0 \<le> i \<and> i < int (length df) then Inr (df ! nat i)
      else if i < 0 \<and> - i \<le> int (length df) then Inr (df ! nat (int (length df) + i))
      else Inl IndexError)"

section \<open>Collector: requests, files and main\<close>

text \<open>
  The upstream API answers a request with a status code and a body; \<open>response.json()\<close>
  gives the parsed body or raises. The body of \<open>/simple/price\<close> maps coin ids to quotes
  (objects with the keys \<open>usd\<close>, \<open>usd_market_cap\<close>, ...), the body of \<open>market_chart\<close> is
  the three arrays. \<open>requests.get\<close> itself raises when the network fails.
\<close>

type_synonym quote = "(string \<times> jval) list"

record 'a response =
  status_code :: nat
  json :: "error + 'a"

record request =
  url :: string
  params :: "(string \<times> string) list"

record schema_field =
  field_name :: string
  field_type :: string
  field_title :: string
  field_description :: string

record resource =
  res_name :: string
  res_path :: string
  res_title :: string
  res_description :: string
  res_format :: string
  res_mediatype :: string
  res_encoding :: string
  res_bytes :: nat
  res_schema :: "schema_field list"

record datapackage =
  dp_name :: string
  dp_title :: string
  dp_description :: string
  dp_version :: string
  dp_created :: string
  dp_contributors :: "(string \<times> string list) list"
  dp_licenses :: "(string \<times> string \<times> string) list"
  dp_sources :: "(string \<times> string \<times> string) list"
  dp_keywords :: "string list"
  dp_resources :: "resource list"

text \<open>
  What a file of the Collector holds. A CSV file is represented by the table written to
  it; how \<open>to_csv\<close> spells the cells as text and how \<open>read_csv\<close> reads text back are not
  modelled.
\<close>

datatype collector_file =
    QuoteJson quote
  | ChartJson raw_data
  | Csv "jval row list"
  | DatapackageJson datapackage

text \<open>
  The state of a Collector run: the file system, the answers of the two endpoints (of
  \<open>market_chart\<close> for each number of days), the requests sent so far, and the two readings
  of the clock, \<open>datetime.now().strftime("%Y%m%d_%H%M%S")\<close> in \<open>save_raw_data\<close> and
  \<open>datetime.now().isoformat()\<close> in \<open>create_datapackage\<close>.
\<close>

record collector_world = "collector_file filesystem" +
  simple_price :: "error + (string \<times> quote) list response"
  market_chart :: "nat \<Rightarrow> error + raw_data response"
  sent :: "request list"
  now_stamp :: string
  now_iso :: string

definition base_url :: string where
  "base_url = ''https://api.coingecko.com/api/v3''"

definition coin_id :: string where
  "coin_id = ''bitcoin''"

definition requests_get_price :: "request \<Rightarrow> ((string \<times> quote) list response, collector_world) prog" where
  "requests_get_price req = (\<lambda>w. (simple_price w, w\<lparr>sent := sent w @ [req]\<rparr>))"

definition requests_get_chart :: "nat \<Rightarrow> request \<Rightarrow> (raw_data response, collector_world) prog" where
  "requests_get_chart days req = (\<lambda>w. (market_chart w days, w\<lparr>sent := sent w @ [req]\<rparr>))"

definition collect_current_price :: "(quote, collector_world) prog" where
  "collect_current_price =
     bindE (requests_get_price
              \<lparr>url = base_url @ ''/simple/price'',
               params = [(''ids'', coin_id), (''vs_currencies'', ''usd''),
                         (''include_market_cap'', ''true''), (''include_24hr_vol'', ''true''),
                         (''include_24hr_change'', ''true''),
                         (''include_last_updated_at'', ''true'')]\<rparr>)
       (\<lambda>response.
          if status_code response = 200
          then bindE (liftE (json response)) (\<lambda>data. liftE (getitem data coin_id))
          else raiseE (Exception (''Failed to fetch current price: ''
                                    @ string_of_nat (status_code response))))"

definition collect_historical_prices :: "nat \<Rightarrow> (raw_data, collector_world) prog" where
  "collect_historical_prices days =
     bindE (requests_get_chart days
              \<lparr>url = base_url @ ''/coins/'' @ coin_id @ ''/market_chart'',
               params = [(''vs_currency'', ''usd''), (''days'', string_of_nat days),
                         (''interval'', ''daily'')]\<rparr>)
       (\<lambda>response.
          if status_code response = 200
          then liftE (json response)
          else raiseE (Exception (''Failed to fetch historical data: ''
                                    @ string_of_nat (status_code response))))"

definition save_raw_data :: "quote \<Rightarrow> raw_data \<Rightarrow> (unit, collector_world) prog" where
  "save_raw_data current_data historical_data =
     (\<lambda>w. let timestamp = now_stamp w
          in (Inr (),
              write_file (''data/raw/historical_data_'' @ timestamp @ ''.json'')
                (ChartJson historical_data)
                (write_file (''data/raw/current_price_'' @ timestamp @ ''.json'')
                   (QuoteJson current_data)
                   (mkdir ''data/raw'' (mkdir ''data'' w)))))"

definition save_processed_data :: "jval row list \<Rightarrow> (string, collector_world) prog" where
  "save_processed_data df =
     (\<lambda>w. let output_file = ''data/processed/bitcoin_prices.csv''
          in (Inr output_file,
              write_file output_file (Csv df) (mkdir ''data/processed'' (mkdir ''data'' w))))"

text \<open>
  \<open>pd.read_csv\<close>: the table of the file, FileNotFoundError when there is no file. (The
  scripts only read the path they write the table to; a file holding something else is
  answered with a parser error.)
\<close>

definition read_csv :: "string \<Rightarrow> collector_world \<Rightarrow> error + jval row list" where
  "read_csv path w =
     (case files w path of
        None \<Rightarrow> Inl FileNotFoundError
      | Some (Csv df) \<Rightarrow> Inr df
      | Some _ \<Rightarrow> Inl ParserError)"

definition descriptor :: "nat \<Rightarrow> string \<Rightarrow> datapackage" where
  "descriptor n_bytes created =
     \<lparr>dp_name = ''bitcoin-price-data'',
      dp_title = ''Bitcoin Price Data'',
      dp_description = ''Daily Bitcoin price, market capitalization, and trading volume data from CoinGecko API'',
      dp_version = ''1.0.0'',
      dp_created = created,
      dp_contributors = [(''Abeelha (Data Package Creator)'', [''creator'', ''maintainer''])],
      dp_licenses = [(''CC-BY-4.0'', ''Creative Commons Attribution 4.0 International'',
                      ''https://creativecommons.org/licenses/by/4.0/'')],
      dp_sources = [(''CoinGecko API'', ''https://api.coingecko.com/api/v3'',
                     ''Free cryptocurrency price API'')],
      dp_keywords = [''bitcoin'', ''cryptocurrency'', ''price'', ''market-data'', ''financial''],
      dp_resources =
        [\<lparr>res_name = ''bitcoin-prices'',
          res_path = ''data/processed/bitcoin_prices.csv'',
          res_title = ''Bitcoin Daily Prices'',
          res_description = ''Daily Bitcoin price, market cap, and volume data'',
          res_format = ''csv'',
          res_mediatype = ''text/csv'',
          res_encoding = ''utf-8'',
          res_bytes = n_bytes,
          res_schema =
            [\<lparr>field_name = ''date'', field_type = ''date'', field_title = ''Date'',
              field_description = ''Date of price data (YYYY-MM-DD)''\<rparr>,
             \<lparr>field_name = ''datetime'', field_type = ''datetime'', field_title = ''DateTime'',
              field_description = ''Full timestamp of price data''\<rparr>,
             \<lparr>field_name = ''price'', field_type = ''number'', field_title = ''Price (USD)'',
              field_description = ''Bitcoin price in US Dollars''\<rparr>,
             \<lparr>field_name = ''market_cap'', field_type = ''integer'',
              field_title = ''Market Capitalization'',
              field_description = ''Total market capitalization in USD''\<rparr>,
             \<lparr>field_name = ''volume'', field_type = ''integer'',
              field_title = ''24h Trading Volume'',
              field_description = ''24-hour trading volume in USD''\<rparr>]\<rparr>]\<rparr>"

definition create_datapackage :: "string \<Rightarrow> (unit, collector_world) prog" where
  "create_datapackage csv_file =
     bindE (\<lambda>w. (read_csv csv_file w, w))
       (\<lambda>df w. (Inr (),
                 write_file ''datapackage.json''
                   (DatapackageJson (descriptor (length df * 100) (now_iso w))) w))"

text \<open>
  \<open>main\<close> of the Collector. Everything runs inside \<open>try\<close>; any exception ends the run with
  status 1, otherwise the status is 0. The pause between the two requests and the optional
  validation by an external command change nothing in the state (the validation only
  prints, and a missing command is caught). The two prints that format a price and the one
  that reads the first and last date are kept for the exceptions they can raise.
\<close>

definition main_collector :: "object_round \<Rightarrow> collector_world \<Rightarrow> int \<times> collector_world" where
  "main_collector pol w =
     (case bindE collect_current_price (\<lambda>current_data.
           bindE (liftE (bindS (getitem current_data ''usd'') (\<lambda>usd. format_cell_2f (float_cell usd)))) (\<lambda>_.
           bindE (collect_historical_prices 365) (\<lambda>historical_data.
           bindE (save_raw_data current_data historical_data) (\<lambda>_.
           bindE (liftE (process_historical_data pol historical_data)) (\<lambda>df_processed.
           bindE (save_processed_data df_processed) (\<lambda>csv_file.
           bindE (create_datapackage csv_file) (\<lambda>_.
           bindE (liftE (bindS (iloc df_processed (- 1)) (\<lambda>r. format_cell_2f (price r)))) (\<lambda>_.
           bindE (liftE (iloc df_processed 0)) (\<lambda>_.
           bindE (liftE (iloc df_processed (- 1))) (\<lambda>_.
           returnE ())))))))))) w
      of (Inl e, w') \<Rightarrow> (1, w')
       | (Inr u, w') \<Rightarrow> (0, w'))"

section \<open>Reporter\<close>

text \<open>
  A chart is represented by what the script puts into it: the kind of trace, its data and
  name, and the layout. The HTML report is represented by its ingredients: the time of
  generation, the statistic boxes in order, and the two charts.
\<close>

record figure =
  trace_kind :: string
  trace_x :: "int list"
  trace_y :: "rat list"
  trace_name :: string
  layout_title :: string
  xaxis_title :: string
  yaxis_title :: string
  height :: nat
  showlegend :: bool

record report =
  generated_on :: string
  stat_boxes :: "(string \<times> string) list"
  price_chart :: figure
  volume_chart :: figure

text \<open>
  What a file of the Reporter holds. The processed CSV is represented by the table
  \<open>read_csv\<close> makes of it: a numeric price column, integer market capitalisation and
  volume; the date columns are held as the instants they spell.
\<close>

datatype reporter_file =
    CsvTable "rat row list"
  | ChartHtml figure
  | ReportHtml report

record reporter_world = "reporter_file filesystem" +
  timestamp_now :: string

definition read_csv_table :: "string \<Rightarrow> reporter_world \<Rightarrow> error + rat row list" where
  "read_csv_table path w =
     (case files w path of
        None \<Rightarrow> Inl FileNotFoundError
      | Some (CsvTable df) \<Rightarrow> Inr df
      | Some _ \<Rightarrow> Inl ParserError)"

text \<open>
  \<open>load_data\<close> returns \<open>None\<close> when the file is not found; any other exception is not
  caught.
\<close>

definition load_data :: "reporter_world \<Rightarrow> error + rat row list option" where
  "load_data w =
     (case read_csv_table ''data/processed/bitcoin_prices.csv'' w of
        Inr df \<Rightarrow> Inr (Some df)
      | Inl FileNotFoundError \<Rightarrow> Inr None
      | Inl e \<Rightarrow> Inl e)"

definition create_simple_price_chart :: "rat row list \<Rightarrow> figure" where
  "create_simple_price_chart df =
     \<lparr>trace_kind = ''scatter'',
      trace_x = map date df,
      trace_y = map price df,
      trace_name = ''Bitcoin Price'',
      layout_title = ''Bitcoin Price Over Time'',
      xaxis_title = ''Date'',
      yaxis_title = ''Price (USD)'',
      height = 600,
      showlegend = False\<rparr>"

definition create_volume_chart :: "rat row list \<Rightarrow> figure" where
  "create_volume_chart df =
     \<lparr>trace_kind = ''bar'',
      trace_x = map date df,
      trace_y = map (\<lambda>r. of_int (volume r)) df,
      trace_name = ''24h Volume'',
      layout_title = ''Bitcoin 24h Trading Volume'',
      xaxis_title = ''Date'',
      yaxis_title = ''Volume (USD)'',
      height = 400,
      showlegend = False\<rparr>"

text \<open>
  \<open>Series.min\<close>, \<open>Series.max\<close> and \<open>Series.mean\<close> of a numeric column. On a column without
  cells pandas yields NaN; no statement of the script gets there, since the access to the
  last row raises first.
\<close>

fun series_min :: "rat list \<Rightarrow> rat" where
  "series_min (x # xs) = fold min xs x"

fun series_max :: "rat list \<Rightarrow> rat" where
  "series_max (x # xs) = fold max xs x"

definition series_mean :: "rat list \<Rightarrow> rat" where
  "series_mean xs = sum_list xs / of_nat (length xs)"

definition create_summary_stats :: "rat row list \<Rightarrow> error + (string \<times> string) list" where
  "create_summary_stats df =
     bindS (iloc df (- 1)) (\<lambda>last_row.
       let current_price = price last_row;
           min_price = series_min (map price df);
           max_price = series_max (map price df);
           avg_price = series_mean (map price df)
       in Inr [(''Current Price'', ''$'' @ format_2f current_price),
               (''Year High'', ''$'' @ format_2f max_price),
               (''Year Low'', ''$'' @ format_2f min_price),
               (''Average Price'', ''$'' @ format_2f avg_price),
               (''Price Range'', ''$'' @ format_2f (max_price - min_price))])"

definition create_html_report ::
  "figure \<Rightarrow> figure \<Rightarrow> (string \<times> string) list \<Rightarrow> reporter_world \<Rightarrow> report" where
  "create_html_report price_fig volume_fig stats w =
     \<lparr>generated_on = timestamp_now w, stat_boxes = stats,
      price_chart = price_fig, volume_chart = volume_fig\<rparr>"

text \<open>
  \<open>main\<close> of the Reporter returns its exit status; an exception that leaves it (\<open>Inl\<close>)
  ends the process with a traceback.
\<close>

definition main_visualization :: "(int, reporter_world) prog" where
  "main_visualization =
     bindE (\<lambda>w. (load_data w, w)) (\<lambda>loaded.
       case loaded of
         None \<Rightarrow> returnE 1
       | Some df \<Rightarrow>
           bindE (\<lambda>w. (Inr (), mkdir ''visualizations'' w)) (\<lambda>_.
           bindE (returnE (create_simple_price_chart df)) (\<lambda>price_fig.
           bindE (returnE (create_volume_chart df)) (\<lambda>volume_fig.
           bindE (liftE (create_summary_stats df)) (\<lambda>stats.
           bindE (\<lambda>w. (Inr (), write_file ''visualizations/bitcoin_price_chart.html''
                                  (ChartHtml price_fig) w)) (\<lambda>_.
           bindE (\<lambda>w. (Inr (), write_file ''visualizations/bitcoin_volume_chart.html''
                                  (ChartHtml volume_fig) w)) (\<lambda>_.
           bindE (\<lambda>w. (Inr (create_html_report price_fig volume_fig stats w), w)) (\<lambda>report_html.
           bindE (\<lambda>w. (Inr (), write_file ''visualizations/bitcoin_report.html''
                                  (ReportHtml report_html) w)) (\<lambda>_.
           returnE 0)))))))))"

section \<open>Derived notions used in the statements\<close>

text \<open>The timestamps that occur in all three arrays of a response.\<close>

definition common_timestamps :: "raw_data \<Rightarrow> int set" where
  "common_timestamps raw =
     fst ` set (prices raw) \<inter> fst ` set (market_caps raw) \<inter> fst ` set (total_volumes raw)"

text \<open>The frame after the two merges of \<open>process_historical_data\<close>.\<close>

definition joined :: "raw_data \<Rightarrow> (int \<times> (jval \<times> jval) \<times> jval) list" where
  "joined raw =
     merge_on_timestamp
       (merge_on_timestamp (frame float_cell (prices raw))
          (frame finite_cell (market_caps raw)))
       (frame finite_cell (total_volumes raw))"

text \<open>
  The amount a rendered text such as \<open>$1,234.50\<close> stands for: its digits read as a number
  of cents, negative when the text has a minus sign.
\<close>

definition is_digit :: "char \<Rightarrow> bool" where
  "is_digit c \<longleftrightarrow> c \<in> set ''0123456789''"

definition digit_value :: "char \<Rightarrow> nat" where
  "digit_value c = length (takeWhile (\<lambda>d. d \<noteq> c) ''0123456789'')"

definition nat_of_digits :: "string \<Rightarrow> nat" where
  "nat_of_digits ds = foldl (\<lambda>acc c. 10 * acc + digit_value c) 0 ds"

definition amount_of_text :: "string \<Rightarrow> rat" where
  "amount_of_text s =
     (if CHR ''-'' \<in> set s then - 1 else 1) * of_nat (nat_of_digits (filter is_digit s)) / 100"

text \<open>
  The status with which a script ends, \<open>exit(main())\<close>: the value \<open>main\<close> returns,
  or 1 when an exception leaves \<open>main\<close>.
\<close>

definition exit_status :: "error + int \<Rightarrow> int" where
  "exit_status r = (case r of Inl e \<Rightarrow> 1 | Inr n \<Rightarrow> n)"


definition newest_first_response :: raw_data where
  "newest_first_response =
     \<lparr>prices = [(86400000, Num 2), (0, Num 1)],
      market_caps = [(86400000, 6), (0, 5)],
      total_volumes = [(86400000, 8), (0, 7)]\<rparr>"




text \<open>
  A state of the world for a Collector run, given the status codes the two endpoints
  answer with: both bodies parse, one day of data, and a \<open>datapackage.json\<close> left by
  an earlier run.
\<close>

definition example_world :: "nat \<Rightarrow> nat \<Rightarrow> collector_world" where
  "example_world price_status chart_status =
     \<lparr>files = [''datapackage.json'' \<mapsto> DatapackageJson (descriptor 36500 ''2024-12-31T00:00:00'')],
      dirs = {},
      simple_price =
        Inr \<lparr>status_code = price_status, json = Inr [(''bitcoin'', [(''usd'', Num 50000)])]\<rparr>,
      market_chart =
        (\<lambda>days. Inr \<lparr>status_code = chart_status,
                       json = Inr \<lparr>prices = [(0, Num 1)], market_caps = [(0, 2)],
                                   total_volumes = [(0, 3)]\<rparr>\<rparr>),
      sent = [],
      now_stamp = ''20250101_000000'',
      now_iso = ''2025-01-01T00:00:00''\<rparr>"

text \<open>
  The status codes HTTP classes as success, and the two requests the Collector sends.
\<close>

definition is_success_status :: "nat \<Rightarrow> bool" where
  "is_success_status code \<longleftrightarrow> 200 \<le> code \<and> code < 300"

definition price_request :: request where
  "price_request =
     \<lparr>url = base_url @ ''/simple/price'',
      params = [(''ids'', coin_id), (''vs_currencies'', ''usd''),
                (''include_market_cap'', ''true''), (''include_24hr_vol'', ''true''),
                (''include_24hr_change'', ''true''), (''include_last_updated_at'', ''true'')]\<rparr>"

definition chart_request :: "nat \<Rightarrow> request" where
  "chart_request days =
     \<lparr>url = base_url @ ''/coins/'' @ coin_id @ ''/market_chart'',
      params = [(''vs_currency'', ''usd''), (''days'', string_of_nat days),
                (''interval'', ''daily'')]\<rparr>"

text \<open>
  A state in which the API is failing: the body of the price endpoint is an error object
  without the coin, the body of the chart endpoint does not parse.
\<close>

definition failing_world :: "nat \<Rightarrow> nat \<Rightarrow> collector_world" where
  "failing_world price_status chart_status =
     (example_world price_status chart_status)
       \<lparr>simple_price :=
          Inr \<lparr>status_code = price_status, json = Inr [(''status'', [(''error_code'', Num 429)])]\<rparr>,
        market_chart := (\<lambda>days. Inr \<lparr>status_code = chart_status, json = Inl JSONDecodeError\<rparr>)\<rparr>"

section \<open>The inner join\<close>

lemma set_merge_on_timestamp:
  "set (merge_on_timestamp left right) = {(t, a, b). (t, a) \<in> set left \<and> (t, b) \<in> set right}"
  by (induction left right rule: merge_on_timestamp.induct) auto

lemma filter_key_distinct:
  "distinct (map fst ys) \<Longrightarrow>
   length (filter (\<lambda>(t', b). t' = t) ys) = (if t \<in> fst ` set ys then 1 else 0)"
  by (induction ys) (auto simp: image_iff)

lemma keys_merge_on_timestamp:
  "distinct (map fst right) \<Longrightarrow>
   map fst (merge_on_timestamp left right) = filter (\<lambda>t. t \<in> fst ` set right) (map fst left)"
proof (induction left right rule: merge_on_timestamp.induct)
  case (1 right)
  then show ?case by simp
next
  case (2 t a left right)
  have "length (filter (\<lambda>(t', b). t' = t) right) = (if t \<in> fst ` set right then 1 else 0)"
    using 2(2) by (rule filter_key_distinct)
  moreover have "map fst (map (\<lambda>(t', b). (t, a, b)) (filter (\<lambda>(t', b). t' = t) right))
     = replicate (length (filter (\<lambda>(t', b). t' = t) right)) t"
    by (simp add: map_replicate_const case_prod_unfold comp_def)
  ultimately show ?case using 2 by simp
qed

lemma set_keys_merge:
  "fst ` set (merge_on_timestamp left right) = fst ` set left \<inter> fst ` set right"
  by (force simp: set_merge_on_timestamp)

lemma map_fst_frame: "map fst (frame f xs) = map fst xs"
  by (simp add: frame_def case_prod_unfold comp_def)


lemma fst_set_frame: "fst ` set (frame f xs) = fst ` set xs"
  using map_fst_frame[of f xs] by (metis set_map)

lemma set_keys_joined: "fst ` set (joined raw) = common_timestamps raw"
  by (simp add: joined_def common_timestamps_def set_keys_merge fst_set_frame)

lemma keys_joined:
  assumes "distinct (map fst (market_caps raw))" "distinct (map fst (total_volumes raw))"
  shows "map fst (joined raw) =
     filter (\<lambda>t. t \<in> fst ` set (market_caps raw) \<and> t \<in> fst ` set (total_volumes raw)) (map fst (prices raw))"
  using assms
  by (simp add: joined_def keys_merge_on_timestamp map_fst_frame fst_set_frame conj_commute)


lemma series_round_Inr:
  "series_round pol obj rnd cells = Inr out \<Longrightarrow> out = (if obj then cells else map rnd cells)"
  by (auto simp: series_round_def split: if_splits object_round.splits)

lemma to_datetime_ms_Inr: "to_datetime_ms ts = Inr dts \<Longrightarrow> dts = ts \<and> list_all datetime_in_bounds ts"
  by (auto simp: to_datetime_ms_def split: if_splits)

lemma astype_int64_Inr:
  "astype_int64 cells = Inr out \<Longrightarrow> out = map (\<lambda>c. int64_of (f64_value c)) cells"
  by (auto simp: astype_int64_def split: if_splits)

lemma zip4_map:
  "zip (map f xs) (zip (map g xs) (zip (map h xs) (map k xs))) = map (\<lambda>x. (f x, g x, h x, k x)) xs"
  by (induction xs) auto

lemma round_decimals_0: "round_decimals 0 c = rint c"
  by (simp add: round_decimals_def)

lemma process_rows:
  assumes "process_historical_data pol raw = Inr rows"
  shows "rows = map (\<lambda>(t, (p, m), v).
        \<lparr>date = dt_date t, datetime = t,
         price = (if is_object (map snd (prices raw)) then p else round_decimals 2 p),
         market_cap = int64_of (f64_value (rint m)),
         volume = int64_of (f64_value (rint v))\<rparr>) (joined raw)"
proof -
  let ?df = "joined raw"
  from assms obtain dts ps ms ms' vs vs' where
    dts: "to_datetime_ms (map fst ?df) = Inr dts" and
    ps: "series_round pol (is_object (map snd (prices raw))) (round_decimals 2)
               (map (\<lambda>(t, (p, m), v). p) ?df) = Inr ps" and
    ms': "series_round pol (frame finite_cell (market_caps raw) = []) (round_decimals 0)
               (map (\<lambda>(t, (p, m), v). m) ?df) = Inr ms'" and
    ms: "astype_int64 ms' = Inr ms" and
    vs': "series_round pol (frame finite_cell (total_volumes raw) = []) (round_decimals 0)
               (map (\<lambda>(t, (p, m), v). v) ?df) = Inr vs'" and
    vs: "astype_int64 vs' = Inr vs" and
    rows: "rows = map (\<lambda>(dt, p, m, v).
                  \<lparr>date = dt_date dt, datetime = dt, price = p, market_cap = m, volume = v\<rparr>)
                 (zip dts (zip ps (zip ms vs)))"
    by (auto simp: process_historical_data_def joined_def Let_def bindS_def split: sum.splits)
  have empty: "?df = []"
    if "frame finite_cell (market_caps raw) = []
        \<or> frame finite_cell (total_volumes raw) = []"
    using that set_keys_joined[of raw] by (auto simp: common_timestamps_def frame_def)
  have 1: "dts = map fst ?df" using to_datetime_ms_Inr[OF dts] by simp
  have 2: "ps = map (\<lambda>(t, (p, m), v). if is_object (map snd (prices raw)) then p else round_decimals 2 p) ?df"
    using series_round_Inr[OF ps] by (auto simp: case_prod_unfold)
  have "ms' = map (\<lambda>(t, (p, m), v). rint m) ?df"
    using series_round_Inr[OF ms'] empty by (auto simp: case_prod_unfold round_decimals_0)
  then have 3: "ms = map (\<lambda>(t, (p, m), v). int64_of (f64_value (rint m))) ?df"
    using astype_int64_Inr[OF ms] by (simp add: case_prod_unfold comp_def)
  have "vs' = map (\<lambda>(t, (p, m), v). rint v) ?df"
    using series_round_Inr[OF vs'] empty by (auto simp: case_prod_unfold round_decimals_0)
  then have 4: "vs = map (\<lambda>(t, (p, m), v). int64_of (f64_value (rint v))) ?df"
    using astype_int64_Inr[OF vs] by (simp add: case_prod_unfold comp_def)
  show ?thesis unfolding rows 1 2 3 4 zip4_map by (simp add: case_prod_unfold)
qed

lemma is_finite_rint_Num: "is_finite (rint (Num x))"
  by (simp add: Let_def)



lemma floor_rat_numeral_divide:
  "\<lfloor>numeral a / numeral b :: rat\<rfloor> = numeral a div numeral b"
  using floor_divide_of_int_eq[of "numeral a" "numeral b", where ?'a = rat] by simp

lemma floor_rat_neg_numeral_divide:
  "\<lfloor>- numeral a / numeral b :: rat\<rfloor> = - numeral a div numeral b"
  using floor_divide_of_int_eq[of "- numeral a" "numeral b", where ?'a = rat] by simp

lemma ceiling_rat_neg_numeral_divide:
  "\<lceil>- numeral a / numeral b :: rat\<rceil> = - (numeral a div numeral b)"
  using floor_divide_of_int_eq[of "numeral a" "numeral b", where ?'a = rat]
  by (simp add: ceiling_def)

lemmas round_f64_eval = round_f64_def[of 0] round_f64_def[of 1] round_f64_def[of "- 1"]
  round_f64_def[of "numeral n"] round_f64_def[of "- numeral n"]
  round_f64_def[of "numeral a / numeral b"] round_f64_def[of "- (numeral a / numeral b)"]
  round_f64_def[of "1 / numeral b"] round_f64_def[of "- (1 / numeral b)"]
  for n a b

lemmas f64_eval = fl_def f64_of_def finite_cell_def round_f64_eval quantum_def ilog2_def bisect_def pow2_def max_f64_def
  round_half_even_def round_decimals_def int64_of_def Let_def
  floor_rat_numeral_divide floor_rat_neg_numeral_divide ceiling_rat_neg_numeral_divide

lemmas process_eval = f64_eval process_historical_data_def to_datetime_ms_def
  datetime_in_bounds_def series_round_def is_object_def dt_date_def astype_int64_def frame_def
  bindS_def






text \<open>
  Claim C2, as amended. When the timestamps of the price array are strictly increasing and
  no timestamp occurs twice in the array of market capitalisations or in the array of
  volumes, the rows returned by \<open>process_historical_data\<close> have strictly increasing
  timestamps (hence unique, in ascending order). The function does not sort: it keeps the
  order of the price array.
\<close>

theorem normalize_increasing:
  assumes "process_historical_data pol raw = Inr rows"
    and "sorted_wrt (<) (map fst (prices raw))"
    and "distinct (map fst (market_caps raw))"
    and "distinct (map fst (total_volumes raw))"
  shows "sorted_wrt (<) (map datetime rows)
       \<and> distinct (map datetime rows) \<and> sorted (map datetime rows)"
proof -
  have "map datetime rows = map fst (joined raw)"
    unfolding process_rows[OF assms(1)] by (simp add: case_prod_unfold comp_def)
  then have "sorted_wrt (<) (map datetime rows)"
    unfolding keys_joined[OF assms(3,4)] using assms(2) by (simp add: sorted_wrt_filter)
  then show ?thesis
    by (simp add: strict_sorted_iff)
qed

theorem normalize_increasing_witness:
  "sorted_wrt (<) (map datetime
     [\<lparr>date = 0, datetime = 0, price = Num 1, market_cap = 5, volume = 7\<rparr>,
      \<lparr>date = 1, datetime = 86400000, price = Num 2, market_cap = 6, volume = 8\<rparr>])
   \<and> distinct (map datetime
     [\<lparr>date = 0, datetime = 0, price = Num 1, market_cap = 5, volume = 7\<rparr>,
      \<lparr>date = 1, datetime = 86400000, price = Num 2, market_cap = 6, volume = 8\<rparr>])
   \<and> sorted (map datetime
     [\<lparr>date = 0, datetime = 0, price = Num 1, market_cap = 5, volume = 7\<rparr>,
      \<lparr>date = 1, datetime = 86400000, price = Num 2, market_cap = 6, volume = 8\<rparr>])"
proof -
  have h: "process_historical_data RejectDtype
      \<lparr>prices = [(0, Num 1), (86400000, Num 2)], market_caps = [(86400000, 6), (0, 5)],
       total_volumes = [(0, 7), (86400000, 8)]\<rparr>
     = Inr [\<lparr>date = 0, datetime = 0, price = Num 1, market_cap = 5, volume = 7\<rparr>,
            \<lparr>date = 1, datetime = 86400000, price = Num 2, market_cap = 6, volume = 8\<rparr>]"
    by (simp add: process_eval)
  show ?thesis by (rule normalize_increasing[OF h]) simp_all
qed

text \<open>
  Claim C2 as stated fails on a response listed newest first: the rows come out in the
  order of the price array.
\<close>

theorem normalize_increasing_counterexample:
  "process_historical_data RaiseOnCell newest_first_response
     = Inr [\<lparr>date = 1, datetime = 86400000, price = Num 2, market_cap = 6, volume = 8\<rparr>,
            \<lparr>date = 0, datetime = 0, price = Num 1, market_cap = 5, volume = 7\<rparr>]
   \<and> process_historical_data LeaveUnchanged newest_first_response
     = Inr [\<lparr>date = 1, datetime = 86400000, price = Num 2, market_cap = 6, volume = 8\<rparr>,
            \<lparr>date = 0, datetime = 0, price = Num 1, market_cap = 5, volume = 7\<rparr>]
   \<and> process_historical_data RejectDtype newest_first_response
     = Inr [\<lparr>date = 1, datetime = 86400000, price = Num 2, market_cap = 6, volume = 8\<rparr>,
            \<lparr>date = 0, datetime = 0, price = Num 1, market_cap = 5, volume = 7\<rparr>]
   \<and> \<not> sorted (map datetime
           [\<lparr>date = 1, datetime = 86400000, price = Num 2, market_cap = 6, volume = 8\<rparr>,
            \<lparr>date = 0, datetime = 0, price = Num 1, market_cap = 5, volume = 7\<rparr>])"
  by (simp add: newest_first_response_def process_eval)

section \<open>Rounding in float64\<close>

lemma pow2_powi: "pow2 k = 2 powi k"
  by (simp add: pow2_def power_int_def inverse_eq_divide power_one_over)



lemma pow2_mono: "a \<le> b \<Longrightarrow> pow2 a \<le> pow2 b"
  by (simp add: pow2_powi power_int_increasing)

lemma pow2_less_D: "pow2 a < pow2 b \<Longrightarrow> a < b"
  using pow2_mono[of b a] by (cases "a < b") auto

lemma pow2_nat: "0 \<le> k \<Longrightarrow> pow2 k = 2 ^ nat k"
  by (simp add: pow2_def)

lemma pow2_neg: "k \<le> 0 \<Longrightarrow> pow2 k = 1 / 2 ^ nat (- k)"
  by (cases "k = 0") (simp_all add: pow2_def)



lemma bisect_upper:
  "\<bar>x\<bar> < pow2 (e + 2 * s) \<Longrightarrow> \<bar>x\<bar> < pow2 (bisect x e s + s)"
  by (auto simp: bisect_def algebra_simps)

lemma ilog2_upper:
  assumes "\<bar>x\<bar> < pow2 3021"
  shows "\<bar>x\<bar> < pow2 (ilog2 x + 1)"
proof -
  define e1 where "e1 = bisect x (- 1075) 2048"
  define e2 where "e2 = bisect x e1 1024"
  define e3 where "e3 = bisect x e2 512"
  define e4 where "e4 = bisect x e3 256"
  define e5 where "e5 = bisect x e4 128"
  define e6 where "e6 = bisect x e5 64"
  define e7 where "e7 = bisect x e6 32"
  define e8 where "e8 = bisect x e7 16"
  define e9 where "e9 = bisect x e8 8"
  define e10 where "e10 = bisect x e9 4"
  define e11 where "e11 = bisect x e10 2"
  define e12 where "e12 = bisect x e11 1"
  have il: "ilog2 x = e12"
    unfolding ilog2_def e12_def e11_def e10_def e9_def e8_def e7_def e6_def e5_def e4_def
      e3_def e2_def e1_def by simp
  have "\<bar>x\<bar> < pow2 (- 1075 + 2 * 2048)" using assms by simp
  then have "\<bar>x\<bar> < pow2 (e1 + 2 * 1024)" unfolding e1_def using bisect_upper by fastforce
  then have "\<bar>x\<bar> < pow2 (e2 + 2 * 512)" unfolding e2_def using bisect_upper by fastforce
  then have "\<bar>x\<bar> < pow2 (e3 + 2 * 256)" unfolding e3_def using bisect_upper by fastforce
  then have "\<bar>x\<bar> < pow2 (e4 + 2 * 128)" unfolding e4_def using bisect_upper by fastforce
  then have "\<bar>x\<bar> < pow2 (e5 + 2 * 64)" unfolding e5_def using bisect_upper by fastforce
  then have "\<bar>x\<bar> < pow2 (e6 + 2 * 32)" unfolding e6_def using bisect_upper by fastforce
  then have "\<bar>x\<bar> < pow2 (e7 + 2 * 16)" unfolding e7_def using bisect_upper by fastforce
  then have "\<bar>x\<bar> < pow2 (e8 + 2 * 8)" unfolding e8_def using bisect_upper by fastforce
  then have "\<bar>x\<bar> < pow2 (e9 + 2 * 4)" unfolding e9_def using bisect_upper by fastforce
  then have "\<bar>x\<bar> < pow2 (e10 + 2 * 2)" unfolding e10_def using bisect_upper by fastforce
  then have "\<bar>x\<bar> < pow2 (e11 + 2 * 1)" unfolding e11_def using bisect_upper by fastforce
  then have "\<bar>x\<bar> < pow2 (e12 + 1)" unfolding e12_def using bisect_upper by fastforce
  then show ?thesis unfolding il .
qed
























section \<open>Evaluation of the text renderings\<close>

lemma string_of_nat_digit: "n < 10 \<Longrightarrow> string_of_nat n = [''0123456789'' ! n]"
  by (subst string_of_nat.simps) simp

lemma string_of_nat_more:
  "10 \<le> n \<Longrightarrow> string_of_nat n = string_of_nat (n div 10) @ [''0123456789'' ! (n mod 10)]"
  by (subst string_of_nat.simps) simp

lemma group3_short: "length s \<le> 3 \<Longrightarrow> group3 s = s"
  by (subst group3.simps) simp

lemma group3_long:
  "3 < length s \<Longrightarrow> group3 s = group3 (take (length s - 3) s) @ '','' @ drop (length s - 3) s"
  by (subst group3.simps) simp

lemmas format_eval = format_2f_def round_half_even_def Let_def floor_rat_numeral_divide
  floor_rat_neg_numeral_divide string_of_nat_digit string_of_nat_more group3_short group3_long

lemma format_2f_zero: "format_2f 0 = ''0.00''"
  by (simp add: format_eval)

lemma digit_nth: "k < 10 \<Longrightarrow> is_digit (''0123456789'' ! k) \<and> digit_value (''0123456789'' ! k) = k"
proof -
  assume "k < 10"
  then have "k = 0 \<or> k = 1 \<or> k = 2 \<or> k = 3 \<or> k = 4 \<or> k = 5 \<or> k = 6 \<or> k = 7 \<or> k = 8 \<or> k = 9"
    by arith
  then show ?thesis by (elim disjE) (simp_all add: is_digit_def digit_value_def)
qed

lemma nat_of_digits_snoc: "nat_of_digits (ds @ [c]) = 10 * nat_of_digits ds + digit_value c"
  by (simp add: nat_of_digits_def)

lemma string_of_nat_digits:
  "list_all is_digit (string_of_nat n) \<and> nat_of_digits (string_of_nat n) = n"
proof (induction n rule: string_of_nat.induct)
  case (1 n)
  show ?case
  proof (cases "n < 10")
    case True
    then show ?thesis
      using digit_nth[of n] by (subst (1 2) string_of_nat.simps) (simp add: nat_of_digits_def)
  next
    case False
    then have ih: "list_all is_digit (string_of_nat (n div 10))"
      "nat_of_digits (string_of_nat (n div 10)) = n div 10"
      using 1 by simp_all
    have d: "is_digit (''0123456789'' ! (n mod 10))" "digit_value (''0123456789'' ! (n mod 10)) = n mod 10"
      using digit_nth[of "n mod 10"] by simp_all
    show ?thesis
      using False ih d
      by (subst (1 2) string_of_nat.simps) (simp add: nat_of_digits_snoc)
  qed
qed

lemma filter_digits_group3: "filter is_digit (group3 s) = filter is_digit s"
proof (induction s rule: group3.induct)
  case (1 s)
  show ?case
  proof (cases "length s \<le> 3")
    case True
    then show ?thesis by (subst group3.simps) simp
  next
    case False
    have "filter is_digit (group3 s)
        = filter is_digit (group3 (take (length s - 3) s)) @ filter is_digit (drop (length s - 3) s)"
      using False by (subst group3.simps) (simp add: is_digit_def)
    also have "\<dots> = filter is_digit (take (length s - 3) s) @ filter is_digit (drop (length s - 3) s)"
      using 1 False by simp
    also have "\<dots> = filter is_digit s"
      by (simp flip: filter_append)
    finally show ?thesis .
  qed
qed

lemma minus_notin_group3: "CHR ''-'' \<notin> set s \<Longrightarrow> CHR ''-'' \<notin> set (group3 s)"
proof (induction s rule: group3.induct)
  case (1 s)
  show ?case
  proof (cases "length s \<le> 3")
    case True
    then show ?thesis using 1(2) by (subst group3.simps) simp
  next
    case False
    have "CHR ''-'' \<notin> set (take (length s - 3) s)" "CHR ''-'' \<notin> set (drop (length s - 3) s)"
      using 1(2) by (auto dest: in_set_takeD in_set_dropD)
    then show ?thesis
      using 1(1) False by (subst group3.simps) simp
  qed
qed

lemma round_half_even_uminus: "round_half_even (- x) = - round_half_even x"
proof (cases "x = of_int \<lfloor>x\<rfloor>")
  case True
  then obtain k :: int where x: "x = of_int k" by metis
  show ?thesis unfolding x round_half_even_def Let_def
    by (simp flip: of_int_minus)
next
  case False
  let ?f = "\<lfloor>x\<rfloor>"
  have lo: "of_int ?f < x" using False of_int_floor_le[of x] by (metis less_le)
  have hi: "x < of_int ?f + 1" by linarith
  have fl: "\<lfloor>- x\<rfloor> = - ?f - 1"
    using lo hi by (intro floor_unique) simp_all
  show ?thesis
    unfolding round_half_even_def Let_def fl
    using lo hi by (auto simp: algebra_simps)
qed

lemma round_half_even_nonneg: "0 \<le> x \<Longrightarrow> 0 \<le> round_half_even x"
  unfolding round_half_even_def Let_def by (auto simp: zero_le_floor) 

lemma cents_split:
  "10 * (10 * (cents div 100) + cents mod 100 div 10) + cents mod 10 = (cents :: nat)"
proof -
  define a b c d where "a = cents div 100" and "b = cents mod 100" and "c = b div 10"
    and "d = cents mod 10"
  have 1: "b mod 10 = d"
    unfolding b_def d_def by (simp add: mod_mod_cancel)
  have "b = 10 * (b div 10) + b mod 10" by simp
  then have 2: "b = 10 * c + d"
    unfolding c_def 1 .
  have 3: "cents = 100 * a + b"
    unfolding a_def b_def by simp
  have "10 * (10 * a + c) + d = 100 * a + (10 * c + d)" by simp
  also have "\<dots> = 100 * a + b" by (simp only: 2 [symmetric])
  also have "\<dots> = cents" by (simp only: 3 [symmetric])
  finally have "10 * (10 * a + c) + d = cents" .
  then show ?thesis unfolding a_def b_def c_def d_def .
qed

lemma cents_digits:
  fixes cents :: nat
  shows "nat_of_digits (string_of_nat (cents div 100)
           @ [''0123456789'' ! (cents mod 100 div 10), ''0123456789'' ! (cents mod 10)]) = cents"
proof -
  let ?d1 = "''0123456789'' ! (cents mod 100 div 10)"
  let ?d2 = "''0123456789'' ! (cents mod 10)"
  have a: "nat_of_digits (string_of_nat (cents div 100)) = cents div 100"
    using string_of_nat_digits by blast
  have d1: "digit_value ?d1 = cents mod 100 div 10"
    using digit_nth[of "cents mod 100 div 10"] by simp
  have d2: "digit_value ?d2 = cents mod 10"
    using digit_nth[of "cents mod 10"] by simp
  have "string_of_nat (cents div 100) @ [?d1, ?d2] = (string_of_nat (cents div 100) @ [?d1]) @ [?d2]"
    by simp
  then have "nat_of_digits (string_of_nat (cents div 100) @ [?d1, ?d2])
      = 10 * nat_of_digits (string_of_nat (cents div 100) @ [?d1]) + digit_value ?d2"
    by (simp only: nat_of_digits_snoc)
  also have "\<dots> = 10 * (10 * (cents div 100) + cents mod 100 div 10) + cents mod 10"
    by (simp only: nat_of_digits_snoc a d1 d2)
  also have "\<dots> = cents" by (rule cents_split)
  finally show ?thesis .
qed

lemma minus_not_digit: "\<not> is_digit (CHR ''-'')"
  by (simp add: is_digit_def)

lemma minus_notin_digits: "list_all is_digit s \<Longrightarrow> CHR ''-'' \<notin> set s"
  using minus_not_digit unfolding list_all_iff by blast

section \<open>Summary statistics\<close>

lemma iloc_last: "df \<noteq> [] \<Longrightarrow> iloc df (- 1) = Inr (last df)"
  by (cases df rule: rev_cases) (auto simp: iloc_def)

lemma series_min_Min: "xs \<noteq> [] \<Longrightarrow> series_min xs = Min (set xs)"
  by (cases xs) (simp_all add: Min.set_eq_fold[symmetric])

lemma series_max_Max: "xs \<noteq> [] \<Longrightarrow> series_max xs = Max (set xs)"
  by (cases xs) (simp_all add: Max.set_eq_fold[symmetric])

lemma create_summary_stats_empty: "create_summary_stats [] = Inl IndexError"
  by (simp add: create_summary_stats_def bindS_def iloc_def)

lemma create_summary_stats_nonempty: "df \<noteq> [] \<Longrightarrow> \<exists>stats. create_summary_stats df = Inr stats"
  by (simp add: create_summary_stats_def bindS_def iloc_last Let_def)

section \<open>Reporter main\<close>

text \<open>
  Claim C7. When the processed CSV file does not exist, \<open>load_data\<close> returns \<open>None\<close> instead
  of raising, and \<open>main\<close> of the Reporter then returns 1, the status the script exits with,
  and leaves the file system as it was: no directory, chart or report is created.
\<close>

theorem missing_csv_exits_1:
  assumes "files w ''data/processed/bitcoin_prices.csv'' = None"
  shows "load_data w = Inr None
       \<and> main_visualization w = (Inr 1, w)
       \<and> exit_status (fst (main_visualization w)) = 1"
  using assms
  by (simp add: load_data_def read_csv_table_def main_visualization_def bindE_def returnE_def
      exit_status_def)

theorem missing_csv_exits_1_witness:
  "load_data \<lparr>files = Map.empty, dirs = {}, timestamp_now = ''2025-01-01 00:00 UTC''\<rparr> = Inr None
   \<and> main_visualization \<lparr>files = Map.empty, dirs = {}, timestamp_now = ''2025-01-01 00:00 UTC''\<rparr>
     = (Inr 1, \<lparr>files = Map.empty, dirs = {}, timestamp_now = ''2025-01-01 00:00 UTC''\<rparr>)
   \<and> exit_status (fst (main_visualization
        \<lparr>files = Map.empty, dirs = {}, timestamp_now = ''2025-01-01 00:00 UTC''\<rparr>)) = 1"
  by (rule missing_csv_exits_1) simp

text \<open>
  Claim C10. On a frame without rows \<open>create_summary_stats\<close> raises IndexError at the access
  to the last row; it returns statistics exactly for the frames with at least one row. On a
  CSV file that exists and has no rows, \<open>main\<close> of the Reporter is left by that exception,
  after the output directory was created and before any file was written, and the script
  ends with status 1.
\<close>

theorem summary_stats_needs_rows:
  "create_summary_stats [] = Inl IndexError
   \<and> ((\<exists>stats. create_summary_stats df = Inr stats) \<longleftrightarrow> df \<noteq> [])
   \<and> (files w ''data/processed/bitcoin_prices.csv'' = Some (CsvTable []) \<longrightarrow>
        main_visualization w = (Inl IndexError, mkdir ''visualizations'' w)
        \<and> exit_status (fst (main_visualization w)) = 1)"
proof -
  have "main_visualization w = (Inl IndexError, mkdir ''visualizations'' w)"
    if "files w ''data/processed/bitcoin_prices.csv'' = Some (CsvTable [])"
    using that
    by (simp add: load_data_def read_csv_table_def main_visualization_def bindE_def returnE_def
        liftE_def create_summary_stats_empty)
  then show ?thesis
    using create_summary_stats_empty create_summary_stats_nonempty[of df]
    by (auto simp: exit_status_def)
qed

theorem summary_stats_needs_rows_witness:
  "(\<exists>stats. create_summary_stats
       [\<lparr>date = 0, datetime = 0, price = 5 / 2, market_cap = 1, volume = 1\<rparr>] = Inr stats)
   \<and> main_visualization
       \<lparr>files = [''data/processed/bitcoin_prices.csv'' \<mapsto> CsvTable []], dirs = {},
        timestamp_now = ''2025-01-01 00:00 UTC''\<rparr>
     = (Inl IndexError,
        \<lparr>files = [''data/processed/bitcoin_prices.csv'' \<mapsto> CsvTable []],
         dirs = {''visualizations''}, timestamp_now = ''2025-01-01 00:00 UTC''\<rparr>)"
  using summary_stats_needs_rows[of "[\<lparr>date = 0, datetime = 0, price = 5 / 2, market_cap = 1, volume = 1\<rparr>]"
      "\<lparr>files = [''data/processed/bitcoin_prices.csv'' \<mapsto> CsvTable []], dirs = {},
        timestamp_now = ''2025-01-01 00:00 UTC''\<rparr>"]
  by (simp add: mkdir_def)

section \<open>Collector requests and main\<close>

lemmas prog_defs = bindE_def liftE_def returnE_def raiseE_def

lemma sent_collect_current_price:
  "sent (snd (collect_current_price w)) = sent w @
     [\<lparr>url = base_url @ ''/simple/price'',
       params = [(''ids'', coin_id), (''vs_currencies'', ''usd''),
                 (''include_market_cap'', ''true''), (''include_24hr_vol'', ''true''),
                 (''include_24hr_change'', ''true''), (''include_last_updated_at'', ''true'')]\<rparr>]"
  by (simp add: collect_current_price_def requests_get_price_def prog_defs split: sum.splits)

lemma files_collect_current_price: "files (snd (collect_current_price w)) = files w"
  by (simp add: collect_current_price_def requests_get_price_def prog_defs split: sum.splits)

lemma sent_collect_historical_prices:
  "sent (snd (collect_historical_prices days w)) = sent w @
     [\<lparr>url = base_url @ ''/coins/'' @ coin_id @ ''/market_chart'',
       params = [(''vs_currency'', ''usd''), (''days'', string_of_nat days),
                 (''interval'', ''daily'')]\<rparr>]"
  by (simp add: collect_historical_prices_def requests_get_chart_def prog_defs split: sum.splits)

lemma files_collect_historical_prices: "files (snd (collect_historical_prices days w)) = files w"
  by (simp add: collect_historical_prices_def requests_get_chart_def prog_defs split: sum.splits)

lemma main_collector_current_fails:
  assumes "fst (collect_current_price w) = Inl e"
  shows "main_collector pol w = (1, snd (collect_current_price w))"
  using assms by (cases "collect_current_price w") (simp add: main_collector_def bindE_def)

lemma main_collector_historical_fails:
  assumes "fst (collect_historical_prices 365 (snd (collect_current_price w))) = Inl e"
  shows "fst (main_collector pol w) = 1 \<and> files (snd (main_collector pol w)) = files w"
proof (cases "collect_current_price w")
  case (Pair r w1)
  show ?thesis
  proof (cases r)
    case (Inl e')
    then show ?thesis
      using Pair main_collector_current_fails[of w e' pol] files_collect_current_price[of w]
      by simp
  next
    case (Inr current_data)
    obtain r2 w2 where h: "collect_historical_prices 365 w1 = (r2, w2)" by fastforce
    with assms Pair have r2: "r2 = Inl e" by simp
    have f1: "files w1 = files w" using files_collect_current_price[of w] Pair by simp
    have f2: "files w2 = files w1" using files_collect_historical_prices[of 365 w1] h by simp
    show ?thesis
      using Pair Inr h r2 f1 f2
      by (simp add: main_collector_def prog_defs split: sum.splits)
  qed
qed

lemma save_processed_data_eq:
  "save_processed_data df w =
     (Inr ''data/processed/bitcoin_prices.csv'',
      write_file ''data/processed/bitcoin_prices.csv'' (Csv df)
        (mkdir ''data/processed'' (mkdir ''data'' w)))"
  by (simp add: save_processed_data_def Let_def)

lemma create_datapackage_reads:
  assumes "files w csv_file = Some (Csv df)"
  shows "create_datapackage csv_file w =
     (Inr (), write_file ''datapackage.json''
                (DatapackageJson (descriptor (length df * 100) (now_iso w))) w)"
  using assms by (simp add: create_datapackage_def read_csv_def bindE_def)

lemma save_then_create:
  "bindE (save_processed_data df) create_datapackage w =
     (Inr (),
      write_file ''datapackage.json'' (DatapackageJson (descriptor (length df * 100) (now_iso w)))
        (write_file ''data/processed/bitcoin_prices.csv'' (Csv df)
           (mkdir ''data/processed'' (mkdir ''data'' w))))"
proof -
  let ?w1 = "write_file ''data/processed/bitcoin_prices.csv'' (Csv df)
        (mkdir ''data/processed'' (mkdir ''data'' w))"
  have "files ?w1 ''data/processed/bitcoin_prices.csv'' = Some (Csv df)"
    by (simp add: write_file_def)
  from create_datapackage_reads[OF this] show ?thesis
    by (simp add: bindE_def save_processed_data_eq write_file_def mkdir_def)
qed

lemma main_collector_success:
  assumes "fst (main_collector pol w) = 0"
  shows "\<exists>df. files (snd (main_collector pol w)) ''data/processed/bitcoin_prices.csv'' = Some (Csv df)
     \<and> files (snd (main_collector pol w)) ''datapackage.json''
         = Some (DatapackageJson (descriptor (length df * 100) (now_iso w)))"
proof -
  obtain r1 w1 where c1: "collect_current_price w = (r1, w1)" by fastforce
  have iso1: "now_iso w1 = now_iso w"
    using c1 by (auto simp: collect_current_price_def requests_get_price_def prog_defs split: sum.splits if_splits)
  obtain r2 w2 where c2: "collect_historical_prices 365 w1 = (r2, w2)" by fastforce
  have iso2: "now_iso w2 = now_iso w1"
    using c2 by (auto simp: collect_historical_prices_def requests_get_chart_def prog_defs split: sum.splits if_splits)
  from assms c1 c2 obtain current_data historical_data df where
    r1: "r1 = Inr current_data" and r2: "r2 = Inr historical_data" and
    df: "process_historical_data pol historical_data = Inr df"
    by (auto simp: main_collector_def prog_defs bindS_def split: sum.splits prod.splits)
  obtain w3 where c3: "save_raw_data current_data historical_data w2 = (Inr (), w3)"
    and iso3: "now_iso w3 = now_iso w2"
    by (simp add: save_raw_data_def write_file_def mkdir_def Let_def)
  let ?w5 = "write_file ''datapackage.json'' (DatapackageJson (descriptor (length df * 100) (now_iso w3)))
        (write_file ''data/processed/bitcoin_prices.csv'' (Csv df)
           (mkdir ''data/processed'' (mkdir ''data'' w3)))"
  have c45: "bindE (save_processed_data df) create_datapackage w3 = (Inr (), ?w5)"
    by (rule save_then_create)
  have "snd (main_collector pol w) = ?w5"
    using assms c1 c2 r1 r2 df c3 c45
    by (auto simp: main_collector_def prog_defs bindS_def split: sum.splits prod.splits)
  then show ?thesis
    by (simp add: write_file_def iso1 iso2 iso3)
qed

lemmas collector_eval = main_collector_def collect_current_price_def collect_historical_prices_def
  requests_get_price_def requests_get_chart_def save_raw_data_def save_processed_data_def
  create_datapackage_def read_csv_def write_file_def mkdir_def getitem_def iloc_def coin_id_def
  bindS_def prog_defs

lemma collect_current_price_eq:
  "collect_current_price w =
     (case simple_price w of
        Inl e \<Rightarrow> Inl e
      | Inr resp \<Rightarrow>
          if status_code resp = 200 then bindS (json resp) (\<lambda>data. getitem data coin_id)
          else Inl (Exception (''Failed to fetch current price: '' @ string_of_nat (status_code resp))),
      w\<lparr>sent := sent w @ [price_request]\<rparr>)"
  by (simp add: collect_current_price_def requests_get_price_def prog_defs bindS_def price_request_def
      split: sum.splits)

lemma collect_historical_prices_eq:
  "collect_historical_prices days w =
     (case market_chart w days of
        Inl e \<Rightarrow> Inl e
      | Inr resp \<Rightarrow>
          if status_code resp = 200 then json resp
          else Inl (Exception (''Failed to fetch historical data: '' @ string_of_nat (status_code resp))),
      w\<lparr>sent := sent w @ [chart_request days]\<rparr>)"
  by (simp add: collect_historical_prices_def requests_get_chart_def prog_defs chart_request_def
      split: sum.splits)

lemma sent_save_raw_data: "sent (snd (save_raw_data c h w)) = sent w"
  by (simp add: save_raw_data_def write_file_def mkdir_def Let_def)

lemma sent_save_then_create:
  "sent (snd (bindE (save_processed_data df) create_datapackage w)) = sent w"
  by (simp add: save_then_create write_file_def mkdir_def)

lemma main_collector_sent:
  "sent (snd (main_collector pol w)) = sent w @ [price_request]
   \<or> sent (snd (main_collector pol w)) = sent w @ [price_request, chart_request 365]"
proof -
  obtain r1 w1 where c1: "collect_current_price w = (r1, w1)" by fastforce
  have s1: "sent w1 = sent w @ [price_request]"
    using c1 by (simp add: collect_current_price_eq) auto
  obtain r2 w2 where c2: "collect_historical_prices 365 w1 = (r2, w2)" by fastforce
  have s2: "sent w2 = sent w @ [price_request, chart_request 365]"
    using c2 s1 by (simp add: collect_historical_prices_eq) auto
  have s3: "sent (snd (save_raw_data c h w2)) = sent w2" for c h
    by (rule sent_save_raw_data)
  have s45: "sent (snd (bindE (save_processed_data df) create_datapackage w')) = sent w'" for df w'
    by (rule sent_save_then_create)
  show ?thesis
  proof (cases r1)
    case (Inl e)
    then show ?thesis using c1 s1 by (simp add: main_collector_def bindE_def)
  next
    case r1: (Inr q)
    show ?thesis
    proof (cases "bindS (getitem q ''usd'') (\<lambda>usd. format_cell_2f (float_cell usd))")
      case (Inl e)
      then show ?thesis using c1 r1 s1 by (simp add: main_collector_def prog_defs)
    next
      case fm: (Inr s)
      show ?thesis
      proof (cases r2)
        case (Inl e)
        then show ?thesis using c1 r1 fm c2 s2 by (simp add: main_collector_def prog_defs)
      next
        case r2: (Inr h)
        obtain w3 where c3: "save_raw_data q h w2 = (Inr (), w3)" and s3': "sent w3 = sent w2"
          by (simp add: save_raw_data_def write_file_def mkdir_def Let_def)
        show ?thesis
        proof (cases "process_historical_data pol h")
          case (Inl e)
          then show ?thesis using c1 r1 fm c2 r2 c3 s3' s2 by (simp add: main_collector_def prog_defs)
        next
          case (Inr df)
          obtain w5 where c45: "bindE (save_processed_data df) create_datapackage w3 = (Inr (), w5)"
            and s5: "sent w5 = sent w3"
            by (simp add: save_then_create write_file_def mkdir_def)
          have "sent (snd (main_collector pol w)) = sent w5"
            using c1 r1 fm c2 r2 c3 Inr c45
            by (auto simp: main_collector_def prog_defs split: sum.splits prod.splits)
          then show ?thesis using s5 s3' s2 by simp
        qed
      qed
    qed
  qed
qed

lemma dirs_collect_current_price: "dirs (snd (collect_current_price w)) = dirs w"
  by (simp add: collect_current_price_eq)

lemma dirs_collect_historical_prices: "dirs (snd (collect_historical_prices days w)) = dirs w"
  by (simp add: collect_historical_prices_eq)

lemma main_collector_historical_fails_dirs:
  assumes "fst (collect_historical_prices 365 (snd (collect_current_price w))) = Inl e"
  shows "dirs (snd (main_collector pol w)) = dirs w"
proof (cases "collect_current_price w")
  case (Pair r w1)
  show ?thesis
  proof (cases r)
    case (Inl e')
    then show ?thesis
      using Pair main_collector_current_fails[of w e' pol] dirs_collect_current_price[of w]
      by simp
  next
    case (Inr current_data)
    obtain r2 w2 where h: "collect_historical_prices 365 w1 = (r2, w2)" by fastforce
    with assms Pair have r2: "r2 = Inl e" by simp
    have f1: "dirs w1 = dirs w" using dirs_collect_current_price[of w] Pair by simp
    have f2: "dirs w2 = dirs w1" using dirs_collect_historical_prices[of 365 w1] h by simp
    show ?thesis
      using Pair Inr h r2 f1 f2
      by (simp add: main_collector_def prog_defs split: sum.splits)
  qed
qed

text \<open>
  Claim C8, as amended. \<open>collect_current_price\<close> and \<open>collect_historical_prices\<close> return
  what the body parses to (for the current price, the entry of the coin) exactly when the
  status code is 200, and raise an exception naming the status for every other code,
  whatever the body; an exception of the request itself, of the parsing or of the lookup
  of the coin is passed on. Each call sends its one request. A run of \<open>main\<close> sends the
  price request once and after it at most the chart request once; when the price call
  raises, \<open>main\<close> returns 1 having done nothing but send that request, and when the chart
  call raises it returns 1 with files and directories as they were.
\<close>

theorem fetch_200_or_abort:
  "fst (collect_current_price w) =
     (case simple_price w of
        Inl err \<Rightarrow> Inl err
      | Inr resp \<Rightarrow>
          if status_code resp = 200 then bindS (json resp) (\<lambda>data. getitem data coin_id)
          else Inl (Exception (''Failed to fetch current price: '' @ string_of_nat (status_code resp))))
   \<and> fst (collect_historical_prices days w) =
     (case market_chart w days of
        Inl err \<Rightarrow> Inl err
      | Inr resp \<Rightarrow>
          if status_code resp = 200 then json resp
          else Inl (Exception (''Failed to fetch historical data: '' @ string_of_nat (status_code resp))))
   \<and> sent (snd (collect_current_price w)) = sent w @ [price_request]
   \<and> sent (snd (collect_historical_prices days w)) = sent w @ [chart_request days]
   \<and> (sent (snd (main_collector pol w)) = sent w @ [price_request]
      \<or> sent (snd (main_collector pol w)) = sent w @ [price_request, chart_request 365])
   \<and> (fst (collect_current_price w) = Inl e \<longrightarrow>
        main_collector pol w = (1, w\<lparr>sent := sent w @ [price_request]\<rparr>))
   \<and> (fst (collect_historical_prices 365 (snd (collect_current_price w))) = Inl e \<longrightarrow>
        fst (main_collector pol w) = 1
        \<and> files (snd (main_collector pol w)) = files w
        \<and> dirs (snd (main_collector pol w)) = dirs w)"
proof -
  have c: "main_collector pol w = (1, w\<lparr>sent := sent w @ [price_request]\<rparr>)"
    if "fst (collect_current_price w) = Inl e"
    using main_collector_current_fails[OF that, of pol] by (simp add: collect_current_price_eq)
  show ?thesis
    using c main_collector_historical_fails[of w e pol] main_collector_historical_fails_dirs[of w e pol]
      main_collector_sent[of pol w]
    by (simp add: collect_current_price_eq collect_historical_prices_eq)
qed

theorem fetch_200_or_abort_witness:
  "fst (collect_current_price (failing_world 429 503))
     = Inl (Exception ''Failed to fetch current price: 429'')
   \<and> main_collector RaiseOnCell (failing_world 429 503)
     = (1, (failing_world 429 503)\<lparr>sent := [price_request]\<rparr>)
   \<and> fst (collect_current_price (failing_world 200 503)) = Inl (KeyError ''bitcoin'')
   \<and> fst (main_collector RaiseOnCell (failing_world 200 503)) = 1
   \<and> fst (collect_current_price (example_world 200 503)) = Inr [(''usd'', Num 50000)]
   \<and> fst (collect_historical_prices 365 (failing_world 200 503))
     = Inl (Exception ''Failed to fetch historical data: 503'')
   \<and> fst (collect_historical_prices 365 (failing_world 200 200)) = Inl JSONDecodeError
   \<and> fst (main_collector RaiseOnCell (example_world 200 503)) = 1
   \<and> sent (snd (main_collector RaiseOnCell (example_world 200 503)))
     = [price_request, chart_request 365]
   \<and> files (snd (main_collector RaiseOnCell (example_world 200 503)))
     = files (example_world 200 503)
   \<and> dirs (snd (main_collector RaiseOnCell (example_world 200 503))) = {}"
proof -
  have p: "fst (collect_current_price (failing_world 429 503))
     = Inl (Exception ''Failed to fetch current price: 429'')"
    by (simp add: failing_world_def example_world_def collect_current_price_eq
        string_of_nat_digit string_of_nat_more)
  have k: "fst (collect_current_price (failing_world 200 503)) = Inl (KeyError ''bitcoin'')"
    by (simp add: failing_world_def example_world_def collect_current_price_eq bindS_def
        getitem_def coin_id_def)
  have h: "fst (collect_historical_prices 365 (snd (collect_current_price (example_world 200 503))))
     = Inl (Exception ''Failed to fetch historical data: 503'')"
    by (simp add: example_world_def collect_current_price_eq collect_historical_prices_eq
        string_of_nat_digit string_of_nat_more)
  have s: "sent (snd (main_collector RaiseOnCell (example_world 200 503)))
     = [price_request, chart_request 365]"
    by (simp add: example_world_def collector_eval f64_eval price_request_def chart_request_def)
  show ?thesis
    using fetch_200_or_abort[of "failing_world 429 503" 365 RaiseOnCell
        "Exception ''Failed to fetch current price: 429''"] p
      fetch_200_or_abort[of "failing_world 200 503" 365 RaiseOnCell "KeyError ''bitcoin''"] k
      fetch_200_or_abort[of "example_world 200 503" 365 RaiseOnCell
        "Exception ''Failed to fetch historical data: 503''"] h s
      fetch_200_or_abort[of "failing_world 200 200" 365 RaiseOnCell]
    by (simp add: failing_world_def example_world_def bindS_def getitem_def coin_id_def
        string_of_nat_digit string_of_nat_more)
qed

text \<open>
  Claim C8 as stated speaks of success statuses. The codes 201 and 204 are success
  statuses, and the two functions raise on them: the test is for the code 200.
\<close>

theorem fetch_200_or_abort_counterexample:
  "is_success_status 201 \<and> is_success_status 204
   \<and> fst (collect_current_price (example_world 201 204))
     = Inl (Exception ''Failed to fetch current price: 201'')
   \<and> fst (collect_historical_prices 365 (example_world 201 204))
     = Inl (Exception ''Failed to fetch historical data: 204'')
   \<and> fst (main_collector LeaveUnchanged (example_world 200 204)) = 1"
  by (simp add: is_success_status_def example_world_def collector_eval f64_eval
      string_of_nat_digit string_of_nat_more)


text \<open>
  Claim C9. \<open>save_processed_data\<close> returns the path of the CSV it wrote;
  \<open>create_datapackage\<close> then succeeds, and afterwards the file system differs from the one
  before in exactly the CSV and \<open>datapackage.json\<close>, whatever was stored there: the
  descriptor records as bytes one hundred times the number of rows written. The row count
  is the one read back from the file at the path given. After a run of \<open>main\<close> with status
  0 the descriptor on disk reflects the row count of the CSV on disk.
\<close>

theorem descriptor_reflects_csv:
  "fst (save_processed_data df w) = Inr ''data/processed/bitcoin_prices.csv''
   \<and> fst (bindE (save_processed_data df) create_datapackage w) = Inr ()
   \<and> files (snd (bindE (save_processed_data df) create_datapackage w))
       = (files w)(''data/processed/bitcoin_prices.csv'' \<mapsto> Csv df,
                   ''datapackage.json'' \<mapsto>
                      DatapackageJson (descriptor (length df * 100) (now_iso w)))
   \<and> map res_bytes (dp_resources (descriptor (length df * 100) (now_iso w))) = [length df * 100]
   \<and> (files w csv_file = Some (Csv rows) \<longrightarrow>
        create_datapackage csv_file w =
          (Inr (), write_file ''datapackage.json''
                     (DatapackageJson (descriptor (length rows * 100) (now_iso w))) w))
   \<and> (fst (main_collector pol w) = 0 \<longrightarrow>
        (\<exists>written. files (snd (main_collector pol w)) ''data/processed/bitcoin_prices.csv''
                      = Some (Csv written)
           \<and> files (snd (main_collector pol w)) ''datapackage.json''
               = Some (DatapackageJson (descriptor (length written * 100) (now_iso w)))))"
  using main_collector_success[of pol w] create_datapackage_reads[of w csv_file rows]
  by (simp add: save_then_create save_processed_data_eq write_file_def mkdir_def descriptor_def)

theorem descriptor_reflects_csv_witness:
  "files (example_world 200 200) ''datapackage.json''
     = Some (DatapackageJson (descriptor 36500 ''2024-12-31T00:00:00''))
   \<and> (\<exists>written.
        files (snd (main_collector RejectDtype (example_world 200 200)))
          ''data/processed/bitcoin_prices.csv'' = Some (Csv written)
      \<and> files (snd (main_collector RejectDtype (example_world 200 200))) ''datapackage.json''
          = Some (DatapackageJson (descriptor (length written * 100) ''2025-01-01T00:00:00'')))
   \<and> create_datapackage ''old.csv''
        (write_file ''old.csv''
           (Csv [\<lparr>date = 0, datetime = 0, price = Num 1, market_cap = 2, volume = 3\<rparr>,
                 \<lparr>date = 1, datetime = 86400000, price = Num 1, market_cap = 2, volume = 3\<rparr>])
           (example_world 200 200))
      = (Inr (),
         write_file ''datapackage.json''
           (DatapackageJson (descriptor 200 ''2025-01-01T00:00:00''))
           (write_file ''old.csv''
              (Csv [\<lparr>date = 0, datetime = 0, price = Num 1, market_cap = 2, volume = 3\<rparr>,
                    \<lparr>date = 1, datetime = 86400000, price = Num 1, market_cap = 2, volume = 3\<rparr>])
              (example_world 200 200)))"
proof -
  have ok: "fst (main_collector RejectDtype (example_world 200 200)) = 0"
    by (simp add: example_world_def collector_eval process_eval)
  show ?thesis
    using descriptor_reflects_csv[of "[]" "example_world 200 200" "''datapackage.json''" "[]"
        RejectDtype] ok
      descriptor_reflects_csv[of "[]"
        "write_file ''old.csv''
           (Csv [\<lparr>date = 0, datetime = 0, price = Num 1, market_cap = 2, volume = 3\<rparr>,
                 \<lparr>date = 1, datetime = 86400000, price = Num 1, market_cap = 2, volume = 3\<rparr>])
           (example_world 200 200)"
        "''old.csv''"
        "[\<lparr>date = 0, datetime = 0, price = Num 1, market_cap = 2, volume = 3\<rparr>,
          \<lparr>date = 1, datetime = 86400000, price = Num 1, market_cap = 2, volume = 3\<rparr>]"
        RejectDtype]
    by (simp add: example_world_def write_file_def)
qed

end
